theory Spec2Isabelle
  imports Complex_Main
begin

section \<open>Single-precision values\<close>

text \<open>
  The program computes with C++ \<^verbatim>\<open>float\<close>. A value of that type is a finite number, one
  of the two infinities, or a NaN. Finite values are carried as the real number they denote
  (the two zeros are not told apart). The comparisons and \<^verbatim>\<open>std::abs\<close> are exact
  operations and are defined here; every comparison with a NaN is false. Operations that
  round take the rounding function as a parameter; \<open>binary32\<close> below is the rounding of
  the machine, and the value of a literal such as \<^verbatim>\<open>0.002f\<close> is \<open>binary32 0.002\<close>.
\<close>

datatype float = Finite real | PInf | NInf | NaN

text \<open>\<^verbatim>\<open>a < b\<close> on floats.\<close>

fun flt :: "float \<Rightarrow> float \<Rightarrow> bool" where
  "flt NaN b = False"
| "flt a NaN = False"
| "flt (Finite x) (Finite y) = (x < y)"
| "flt (Finite x) PInf = True"
| "flt (Finite x) NInf = False"
| "flt PInf b = False"
| "flt NInf NInf = False"
| "flt NInf b = True"

text \<open>\<^verbatim>\<open>a >= b\<close> on floats.\<close>

fun fge :: "float \<Rightarrow> float \<Rightarrow> bool" where
  "fge NaN b = False"
| "fge a NaN = False"
| "fge a b = (\<not> flt a b)"

text \<open>\<^verbatim>\<open>std::abs\<close> on floats.\<close>

fun fabs :: "float \<Rightarrow> float" where
  "fabs (Finite x) = Finite \<bar>x\<bar>"
| "fabs PInf = PInf"
| "fabs NInf = PInf"
| "fabs NaN = NaN"

fun fneg :: "float \<Rightarrow> float" where
  "fneg (Finite x) = Finite (- x)"
| "fneg PInf = NInf"
| "fneg NInf = PInf"
| "fneg NaN = NaN"

text \<open>
  The arithmetic of IEEE 754: a NaN operand gives NaN, the infinities follow the standard's
  rules, and the exact result on finite operands is rounded by \<open>r\<close> (which may overflow to
  an infinity).
\<close>

fun fadd :: "(real \<Rightarrow> float) \<Rightarrow> float \<Rightarrow> float \<Rightarrow> float" where
  "fadd r NaN b = NaN"
| "fadd r a NaN = NaN"
| "fadd r (Finite x) (Finite y) = r (x + y)"
| "fadd r (Finite x) b = b"
| "fadd r a (Finite y) = a"
| "fadd r PInf PInf = PInf"
| "fadd r NInf NInf = NInf"
| "fadd r PInf NInf = NaN"
| "fadd r NInf PInf = NaN"

definition fsub :: "(real \<Rightarrow> float) \<Rightarrow> float \<Rightarrow> float \<Rightarrow> float" where
  "fsub r a b = fadd r a (fneg b)"

text \<open>The sign of a non-NaN value, as \<open>-1\<close>, \<open>0\<close> or \<open>1\<close>.\<close>

fun fsign :: "float \<Rightarrow> int" where
  "fsign (Finite x) = (if x < 0 then - 1 else if x = 0 then 0 else 1)"
| "fsign PInf = 1"
| "fsign NInf = - 1"
| "fsign NaN = 0"

fun fmul :: "(real \<Rightarrow> float) \<Rightarrow> float \<Rightarrow> float \<Rightarrow> float" where
  "fmul r NaN b = NaN"
| "fmul r a NaN = NaN"
| "fmul r (Finite x) (Finite y) = r (x * y)"
| "fmul r a b =
     (if fsign a * fsign b = 0 then NaN else if fsign a * fsign b = 1 then PInf else NInf)"

text \<open>
  Division. A zero divisor is taken as \<^verbatim>\<open>+0\<close>: the program divides only by a positive
  constant and by the result of \<^verbatim>\<open>std::abs\<close>.
\<close>

fun fdiv :: "(real \<Rightarrow> float) \<Rightarrow> float \<Rightarrow> float \<Rightarrow> float" where
  "fdiv r NaN b = NaN"
| "fdiv r a NaN = NaN"
| "fdiv r (Finite x) (Finite y) =
     (if y = 0 then (if x = 0 then NaN else if 0 < x then PInf else NInf) else r (x / y))"
| "fdiv r (Finite x) b = Finite 0"
| "fdiv r a (Finite y) = (if (fsign a = 1) = (0 \<le> y) then PInf else NInf)"
| "fdiv r a b = NaN"

text \<open>\<^verbatim>\<open>std::sqrt\<close>: NaN on a negative argument.\<close>

fun fsqrt :: "(real \<Rightarrow> float) \<Rightarrow> float \<Rightarrow> float" where
  "fsqrt r (Finite x) = (if x < 0 then NaN else r (sqrt x))"
| "fsqrt r PInf = PInf"
| "fsqrt r NInf = NaN"
| "fsqrt r NaN = NaN"

text \<open>
  Rounding to single precision (IEEE 754 binary32, round to nearest, ties to even): a
  significand of 24 bits, the exponent of the leading bit at least \<open>-126\<close> (below it the
  values are subnormal), and overflow to an infinity from \<open>2 ^ 128\<close> on.
\<close>

definition pow2 :: "int \<Rightarrow> real" where
  "pow2 e = (if 0 \<le> e then 2 ^ nat e else 1 / 2 ^ nat (- e))"

definition rne :: "real \<Rightarrow> int" where
  "rne x =
     (let f = \<lfloor>x\<rfloor>
      in if x - of_int f < 1 / 2 then f
         else if 1 / 2 < x - of_int f then f + 1
         else if even f then f else f + 1)"

definition binary32 :: "real \<Rightarrow> float" where
  "binary32 x =
     (if x = 0 then Finite 0
      else (let e = max \<lfloor>log 2 \<bar>x\<bar>\<rfloor> (- 126);
                q = pow2 (e - 23);
                y = of_int (rne (x / q)) * q
            in if pow2 128 \<le> \<bar>y\<bar> then (if 0 < x then PInf else NInf) else Finite y))"

section \<open>Species and Bethe-Bloch parameters\<close>

text \<open>The nine \<^verbatim>\<open>o2::track::PID::ID\<close> values that \<^verbatim>\<open>lfTpcPid\<close> instantiates its templates with.\<close>

datatype PID = Electron | Muon | Pion | Kaon | Proton | Deuteron | Triton | Helium3 | Alpha

text \<open>The order of the nine blocks of \<^verbatim>\<open>init\<close>.\<close>

definition allSpecies :: "PID list" where
  "allSpecies = [Electron, Muon, Pion, Kaon, Proton, Deuteron, Triton, Helium3, Alpha]"

text \<open>The row label of a species in \<^verbatim>\<open>bbParameters\<close> and the suffix of its table names.\<close>

fun particleName :: "PID \<Rightarrow> string" where
  "particleName Electron = ''El''"
| "particleName Muon = ''Mu''"
| "particleName Pion = ''Pi''"
| "particleName Kaon = ''Ka''"
| "particleName Proton = ''Pr''"
| "particleName Deuteron = ''De''"
| "particleName Triton = ''Tr''"
| "particleName Helium3 = ''He''"
| "particleName Alpha = ''Al''"

text \<open>The name of a species in the log messages of \<^verbatim>\<open>init\<close>.\<close>

fun speciesName :: "PID \<Rightarrow> string" where
  "speciesName Electron = ''Electron''"
| "speciesName Muon = ''Muon''"
| "speciesName Pion = ''Pion''"
| "speciesName Kaon = ''Kaon''"
| "speciesName Proton = ''Proton''"
| "speciesName Deuteron = ''Deuteron''"
| "speciesName Triton = ''Triton''"
| "speciesName Helium3 = ''Helium3''"
| "speciesName Alpha = ''Alpha''"

definition nSpecies :: nat where
  "nSpecies = 9"

definition nParameters :: nat where
  "nParameters = 11"

definition particleNames :: "string list" where
  "particleNames = [''El'', ''Mu'', ''Pi'', ''Ka'', ''Pr'', ''De'', ''Tr'', ''He'', ''Al'']"

definition parameterNames :: "string list" where
  "parameterNames =
     [''Use default tiny'', ''Use default full'', ''Set parameters'',
      ''bb1'', ''bb2'', ''bb3'', ''bb4'', ''bb5'',
      ''MIP value'', ''Charge exponent'', ''Resolution'']"

text \<open>\<^verbatim>\<open>defaultParameters[nSpecies][nParameters]{}\<close>: value-initialised, every entry zero.\<close>

definition defaultParameters :: "float list list" where
  "defaultParameters = replicate nSpecies (replicate nParameters (Finite 0))"

text \<open>
  A \<^verbatim>\<open>LabeledArray<float>\<close> is read only through \<^verbatim>\<open>get(row, column)\<close>: it is carried as
  that function. \<open>labeledArray\<close> builds the one over a matrix with row and column labels,
  as the default value of \<^verbatim>\<open>bbParameters\<close> is built over \<open>defaultParameters\<close>; a label
  that is not in the list reads as zero there.
\<close>

type_synonym LabeledArray = "string \<Rightarrow> string \<Rightarrow> float"

fun indexOf :: "string list \<Rightarrow> string \<Rightarrow> nat option" where
  "indexOf [] l = None"
| "indexOf (x # xs) l = (if x = l then Some 0 else map_option Suc (indexOf xs l))"

definition labeledArray :: "float list list \<Rightarrow> string list \<Rightarrow> string list \<Rightarrow> LabeledArray" where
  "labeledArray m rows cols x y =
     (case (indexOf rows x, indexOf cols y) of
        (Some i, Some j) \<Rightarrow> (if i < length m \<and> j < length (m ! i) then m ! i ! j else Finite 0)
      | _ \<Rightarrow> Finite 0)"

definition default_bbParameters :: LabeledArray where
  "default_bbParameters = labeledArray defaultParameters particleNames parameterNames"

text \<open>
  \<^verbatim>\<open>struct bbParams\<close> with its default member initialisers. Each initialiser is a
  \<^verbatim>\<open>float\<close> literal: its value is the binary32 number nearest to the decimal written.
\<close>

record bbParams =
  bb1 :: float
  bb2 :: float
  bb3 :: float
  bb4 :: float
  bb5 :: float
  mip :: float
  exp_par :: float
  res :: float

definition default_bbParams :: bbParams where
  "default_bbParams =
     \<lparr> bb1 = binary32 0.03209809958934784,
       bb2 = binary32 19.9768009185791,
       bb3 = binary32 (2.5266601063857674 / 10 ^ 16),
       bb4 = binary32 2.7212300300598145,
       bb5 = binary32 6.080920219421387,
       mip = binary32 50,
       exp_par = binary32 2.299999952316284,
       res = binary32 0.002 \<rparr>"

section \<open>Logging and aborts\<close>

datatype severity = Info | Error

type_synonym logline = "severity \<times> string"

text \<open>
  How a call can end the process: \<^verbatim>\<open>LOG(fatal)\<close> with its message, or a member call
  through a null pointer.
\<close>

datatype abort = Fatal string | NullPointerDereference

text \<open>A parameter set under resolution, with the log written so far.\<close>

type_synonym bbst = "bbParams \<times> logline list"

section \<open>The \<^verbatim>\<open>setValues\<close> overloads\<close>

text \<open>\<^verbatim>\<open>bool setValues(std::vector<float> v)\<close>\<close>

definition setValues_vector :: "float list \<Rightarrow> bbst \<Rightarrow> bool \<times> bbst" where
  "setValues_vector v st =
     (if length v \<noteq> 8
      then (False, fst st,
            snd st @ [(Error, ''The vector of Bethe-Bloch parameters has the wrong size'')])
      else (True,
            \<lparr> bb1 = v ! 0, bb2 = v ! 1, bb3 = v ! 2, bb4 = v ! 3, bb5 = v ! 4,
              mip = v ! 5, exp_par = v ! 6, res = v ! 7 \<rparr>,
            snd st @ [(Info, ''Before: set of parameters''), (Info, ''After: set of parameters'')]))"

text \<open>\<^verbatim>\<open>bool setValues(const char* particle, const Configurable<LabeledArray<float>>& p)\<close>\<close>

definition setValues_table :: "string \<Rightarrow> LabeledArray \<Rightarrow> bbst \<Rightarrow> bool \<times> bbst" where
  "setValues_table particle p st =
     (if flt (p particle ''Set parameters'') (Finite 1.5)
      then (False, fst st, snd st @ [(Info, ''Using default for '' @ particle)])
      else setValues_vector
             [p particle ''bb1'', p particle ''bb2'', p particle ''bb3'', p particle ''bb4'',
              p particle ''bb5'', p particle ''MIP value'', p particle ''Charge exponent'',
              p particle ''Resolution'']
             (fst st,
              snd st @ [(Info, ''Setting custom Bethe-Bloch parameters for mass hypothesis ''
                               @ particle)]))"

text \<open>
  The outside world of parameter loading: the calibration store, the file system and ROOT's
  histogram interface. \<open>'f\<close> is an open \<^verbatim>\<open>TFile\<close>, \<open>'h\<close> a \<^verbatim>\<open>TH1F\<close>; a null pointer
  is \<open>None\<close>. \<^verbatim>\<open>TAxis::FindBin(label)\<close> may change the histogram (an axis that can be
  extended grows when the label is new), so it returns the histogram with the bin.
  A \<^verbatim>\<open>TH1F\<close> holds floats: \<^verbatim>\<open>static_cast<float>(h->GetBinContent(b))\<close> is the stored
  value.
\<close>

record ('f, 'h) extern =
  ccdb_get :: "string \<Rightarrow> 'h option"
  TFile_Open :: "string \<Rightarrow> 'f option"
  GetObject :: "'f \<Rightarrow> string \<Rightarrow> 'h option"
  GetNbinsX :: "'h \<Rightarrow> int"
  FindBin :: "'h \<Rightarrow> string \<Rightarrow> int \<times> 'h"
  GetBinContent :: "'h \<Rightarrow> int \<Rightarrow> float"

text \<open>
  The elements of the braced initialiser of \<^verbatim>\<open>v\<close> in \<^verbatim>\<open>setValues(TH1F*)\<close>, evaluated
  from left to right: for each label, \<^verbatim>\<open>FindBin\<close> and then \<^verbatim>\<open>GetBinContent\<close>.
\<close>

fun binContents :: "('f, 'h) extern \<Rightarrow> 'h \<Rightarrow> string list \<Rightarrow> float list \<times> 'h" where
  "binContents X h [] = ([], h)"
| "binContents X h (l # ls) =
     (let (b, h1) = FindBin X h l;
          c = GetBinContent X h1 b;
          (cs, h2) = binContents X h1 ls
      in (c # cs, h2))"

definition histLabels :: "string list" where
  "histLabels =
     [''bb1'', ''bb2'', ''bb3'', ''bb4'', ''bb5'', ''MIP value'', ''Charge exponent'',
      ''Resolution'']"

text \<open>\<^verbatim>\<open>bool setValues(TH1F* h)\<close>\<close>

definition setValues_TH1F :: "('f, 'h) extern \<Rightarrow> 'h option \<Rightarrow> bbst \<Rightarrow> abort + bool \<times> bbst" where
  "setValues_TH1F X hp st =
     (case hp of
        None \<Rightarrow> Inl NullPointerDereference
      | Some h \<Rightarrow>
          (let n = GetNbinsX X h;
               (v, h') = binContents X h histLabels
           in if GetNbinsX X h' \<noteq> n
              then Inr (False, fst st,
                        snd st @ [(Error, ''The input histogram of Bethe-Bloch parameters has the wrong size'')])
              else Inr (setValues_vector v
                          (fst st,
                           snd st @ [(Info, ''Setting custom Bethe-Bloch parameters from histogram'')]))))"

text \<open>\<^verbatim>\<open>bool setValues(TFile* f)\<close>\<close>

definition setValues_TFile :: "('f, 'h) extern \<Rightarrow> 'f option \<Rightarrow> bbst \<Rightarrow> abort + bool \<times> bbst" where
  "setValues_TFile X fp st =
     (case fp of
        None \<Rightarrow> Inl NullPointerDereference
      | Some f \<Rightarrow>
          (case GetObject X f ''hpar'' of
             None \<Rightarrow>
               Inr (False, fst st,
                    snd st @ [(Error, ''The input file does not contain the histogram hpar'')])
           | Some h \<Rightarrow>
               setValues_TH1F X (Some h)
                 (fst st, snd st @ [(Info, ''Setting parameters from file'')])))"

text \<open>
  \<^verbatim>\<open>bool setValues(const Configurable<std::string>& cfg, Service<BasicCCDBManager> ccdbObj)\<close>,
  on \<^verbatim>\<open>cfg.value\<close>.
\<close>

definition setValues_string :: "('f, 'h) extern \<Rightarrow> string \<Rightarrow> bbst \<Rightarrow> abort + bool \<times> bbst" where
  "setValues_string X s st =
     (if length s \<le> 1 then Inr (False, st)
      else if take 7 s = ''ccdb://''
      then setValues_TH1F X (ccdb_get X (drop 7 s))
             (fst st, snd st @ [(Info, ''Loading parameters from file '' @ s)])
      else setValues_TFile X (TFile_Open X s)
             (fst st, snd st @ [(Info, ''Loading parameters from file '' @ s)]))"

section \<open>The energy-loss and resolution models\<close>

text \<open>
  What \<^verbatim>\<open>lfTpcPid\<close> takes from other libraries: the rounding of the machine's float arithmetic,
  \<^verbatim>\<open>std::pow\<close>, \<^verbatim>\<open>o2::tpc::BetheBlochAleph\<close>, the tables of
  \<^verbatim>\<open>o2::track::pid_constants\<close> and \<^verbatim>\<open>aod::pidutils::packInTable\<close>, which packs a
  value into the compact type \<open>'b\<close> of \<^verbatim>\<open>aod::pidtpc_tiny::binning\<close>.
\<close>

record 'b library =
  rnd :: "real \<Rightarrow> float"
  powf :: "float \<Rightarrow> float \<Rightarrow> float"
  BetheBlochAleph :: "float \<Rightarrow> float \<Rightarrow> float \<Rightarrow> float \<Rightarrow> float \<Rightarrow> float \<Rightarrow> float"
  sMasses :: "PID \<Rightarrow> float"
  sMasses2Z :: "PID \<Rightarrow> float"
  sCharges :: "PID \<Rightarrow> float"
  packInTable :: "float \<Rightarrow> 'b"

text \<open>
  The columns of a track that the process functions read. The stored columns of the nine joined tables
  \<^verbatim>\<open>pidTPC##Particle\<close> and \<^verbatim>\<open>pidTPCFull##Particle\<close> are indexed by the species.
\<close>

record 'b track =
  tpcInnerParam :: float
  tpcSignal :: float
  tpcNSigmaStore :: "PID \<Rightarrow> 'b"
  tpcExpSigma :: "PID \<Rightarrow> float"
  tpcNSigma :: "PID \<Rightarrow> float"

text \<open>\<^verbatim>\<open>template <PID::ID id, typename T> float BetheBlochLf(const T& track, const bbParams& params)\<close>\<close>

definition BetheBlochLf :: "'b library \<Rightarrow> PID \<Rightarrow> 'b track \<Rightarrow> bbParams \<Rightarrow> float" where
  "BetheBlochLf L pid track params =
     (let invmass = fdiv (rnd L) (Finite 1) (sMasses2Z L pid);
          charge = sCharges L pid
      in fmul (rnd L)
           (fmul (rnd L) (mip params)
              (BetheBlochAleph L (fmul (rnd L) (tpcInnerParam track) invmass)
                 (bb1 params) (bb2 params) (bb3 params) (bb4 params) (bb5 params)))
           (powf L charge (exp_par params)))"

text \<open>\<^verbatim>\<open>template <PID::ID id, typename T> float BetheBlochResolutionLf(const T& track, const bbParams& params)\<close>\<close>

definition BetheBlochResolutionLf :: "'b library \<Rightarrow> PID \<Rightarrow> 'b track \<Rightarrow> bbParams \<Rightarrow> float" where
  "BetheBlochResolutionLf L pid track params =
     (let invmass = fdiv (rnd L) (Finite 1) (sMasses L pid);
          charge = sCharges L pid;
          dEdx = BetheBlochLf L pid track params;
          deltaP = fmul (rnd L) (res params) (fsqrt (rnd L) dEdx);
          bgDelta = fmul (rnd L)
                      (fmul (rnd L) (tpcInnerParam track) (fadd (rnd L) (Finite 1) deltaP))
                      invmass;
          dEdx2 = fmul (rnd L)
                    (fmul (rnd L) (mip params)
                       (BetheBlochAleph L bgDelta
                          (bb1 params) (bb2 params) (bb3 params) (bb4 params) (bb5 params)))
                    (powf L charge (exp_par params))
      in fabs (fsub (rnd L) dEdx2 dEdx))"

section \<open>The producer \<^verbatim>\<open>lfTpcPid\<close>\<close>

text \<open>
  The configuration of the producer: the table \<^verbatim>\<open>bbParameters\<close>, the nine strings
  \<^verbatim>\<open>fileParamBb..\<close>, the eighteen process switches, and the answer of
  \<^verbatim>\<open>isTableRequiredInWorkflow(initContext, name)\<close> for each table name.
\<close>

record config =
  bbParameters :: LabeledArray
  fileParamBb :: "PID \<Rightarrow> string"
  doprocess :: "PID \<Rightarrow> bool"
  doprocessFull :: "PID \<Rightarrow> bool"
  isTableRequiredInWorkflow :: "string \<Rightarrow> bool"

text \<open>
  The members of \<^verbatim>\<open>struct lfTpcPid\<close> that change: the nine parameter sets
  \<^verbatim>\<open>bbEl .. bbAl\<close>, the rows of the eighteen produced tables, and the log.
\<close>

record 'b lfTpcPid =
  bbs :: "PID \<Rightarrow> bbParams"
  tablePID :: "PID \<Rightarrow> 'b list"
  tablePIDFull :: "PID \<Rightarrow> (float \<times> float) list"
  logs :: "logline list"

definition lfTpcPid0 :: "'b lfTpcPid" where
  "lfTpcPid0 =
     \<lparr> bbs = (\<lambda>pid. default_bbParams), tablePID = (\<lambda>pid. []), tablePIDFull = (\<lambda>pid. []),
       logs = [] \<rparr>"

text \<open>
  One of the nine blocks of \<^verbatim>\<open>init\<close>. They differ in the names only, and in that the
  block of Alpha does not log that it is enabled.
\<close>

definition initSpecies ::
  "config \<Rightarrow> ('f, 'h) extern \<Rightarrow> PID \<Rightarrow> 'b lfTpcPid \<Rightarrow> abort + 'b lfTpcPid" where
  "initSpecies C X pid s =
     (if doprocess C pid \<or> doprocessFull C pid
      then
        (let l1 = logs s @ (if pid = Alpha then [] else [(Info, ''Enabling '' @ speciesName pid)]);
             st1 = snd (setValues_table (particleName pid) (bbParameters C) (bbs s pid, l1))
         in case setValues_string X (fileParamBb C pid) st1 of
              Inl a \<Rightarrow> Inl a
            | Inr r \<Rightarrow> Inr (s\<lparr>bbs := (bbs s)(pid := fst (snd r)), logs := snd (snd r)\<rparr>))
      else if isTableRequiredInWorkflow C (''pidTPCLf'' @ particleName pid)
              \<or> isTableRequiredInWorkflow C (''pidTPCLfFull'' @ particleName pid)
      then Inl (Fatal (''Requested '' @ speciesName pid @ '' table but not enabled in configuration''))
      else Inr (s\<lparr>logs := logs s @ [(Info, ''Skipping '' @ speciesName pid)]\<rparr>))"

text \<open>The blocks in sequence; an abort ends the process.\<close>

fun initFrom ::
  "config \<Rightarrow> ('f, 'h) extern \<Rightarrow> PID list \<Rightarrow> 'b lfTpcPid \<Rightarrow> abort + 'b lfTpcPid" where
  "initFrom C X [] s = Inr s"
| "initFrom C X (pid # ids) s =
     (case initSpecies C X pid s of
        Inl a \<Rightarrow> Inl a
      | Inr s' \<Rightarrow> initFrom C X ids s')"

text \<open>
  \<^verbatim>\<open>void init(InitContext&)\<close>. The settings of the calibration store that end the
  function change none of the members above.
\<close>

definition init :: "config \<Rightarrow> ('f, 'h) extern \<Rightarrow> 'b lfTpcPid \<Rightarrow> abort + 'b lfTpcPid" where
  "init C X s = initFrom C X allSpecies s"

text \<open>The first \<^verbatim>\<open>makeProcess(Particle)\<close>: \<^verbatim>\<open>process##Particle\<close> on a batch of tracks.\<close>

definition processParticle ::
  "'b library \<Rightarrow> config \<Rightarrow> PID \<Rightarrow> 'b track list \<Rightarrow> 'b lfTpcPid \<Rightarrow> 'b lfTpcPid" where
  "processParticle L C pid tracks s =
     (if fge (bbParameters C (particleName pid) ''Use default tiny'') (Finite 1.5)
      then s\<lparr>tablePID := (tablePID s)
                (pid := tablePID s pid @ map (\<lambda>trk. tpcNSigmaStore trk pid) tracks)\<rparr>
      else s\<lparr>tablePID := (tablePID s)
                (pid := tablePID s pid @
                   map (\<lambda>trk. packInTable L
                                (fdiv (rnd L)
                                   (fsub (rnd L) (tpcSignal trk) (BetheBlochLf L pid trk (bbs s pid)))
                                   (BetheBlochResolutionLf L pid trk (bbs s pid))))
                       tracks)\<rparr>)"

text \<open>The second \<^verbatim>\<open>makeProcess(Particle)\<close>: \<^verbatim>\<open>processFull##Particle\<close>.\<close>

definition processFullParticle ::
  "'b library \<Rightarrow> config \<Rightarrow> PID \<Rightarrow> 'b track list \<Rightarrow> 'b lfTpcPid \<Rightarrow> 'b lfTpcPid" where
  "processFullParticle L C pid tracks s =
     (if fge (bbParameters C (particleName pid) ''Use default full'') (Finite 1.5)
      then s\<lparr>tablePIDFull := (tablePIDFull s)
                (pid := tablePIDFull s pid @ map (\<lambda>trk. (tpcExpSigma trk pid, tpcNSigma trk pid)) tracks)\<rparr>
      else s\<lparr>tablePIDFull := (tablePIDFull s)
                (pid := tablePIDFull s pid @
                   map (\<lambda>trk. (BetheBlochResolutionLf L pid trk (bbs s pid),
                                fdiv (rnd L)
                                  (fsub (rnd L) (tpcSignal trk) (BetheBlochLf L pid trk (bbs s pid)))
                                  (BetheBlochResolutionLf L pid trk (bbs s pid))))
                       tracks)\<rparr>)"

text \<open>
  Modelled from the spec: the workflow engine that calls the producer is not part of the
  source. The parameter resolver runs once at startup, and the processors of the enabled
  switches then run once for each batch of tracks; a failed startup processes nothing.
\<close>

definition processBatch :: "'b library \<Rightarrow> config \<Rightarrow> 'b track list \<Rightarrow> 'b lfTpcPid \<Rightarrow> 'b lfTpcPid" where
  "processBatch L C tracks s =
     fold (\<lambda>pid s1. if doprocessFull C pid then processFullParticle L C pid tracks s1 else s1)
       allSpecies
       (fold (\<lambda>pid s1. if doprocess C pid then processParticle L C pid tracks s1 else s1)
          allSpecies s)"

definition runTask ::
  "'b library \<Rightarrow> config \<Rightarrow> ('f, 'h) extern \<Rightarrow> 'b track list list \<Rightarrow> abort + 'b lfTpcPid" where
  "runTask L C X batches =
     (case init C X lfTpcPid0 of
        Inl a \<Rightarrow> Inl a
      | Inr s \<Rightarrow> Inr (fold (processBatch L C) batches s))"

section \<open>Notions used to state the properties\<close>

text \<open>The parameter set that the eight assignments of \<^verbatim>\<open>setValues(std::vector<float>)\<close> leave.\<close>

definition vectorParams :: "float list \<Rightarrow> bbParams" where
  "vectorParams v =
     \<lparr> bb1 = v ! 0, bb2 = v ! 1, bb3 = v ! 2, bb4 = v ! 3, bb5 = v ! 4,
       mip = v ! 5, exp_par = v ! 6, res = v ! 7 \<rparr>"

text \<open>
  The histogram that a locator string resolves to: the object of the calibration store
  under the key behind the prefix \<^verbatim>\<open>ccdb://\<close>, or else the object \<^verbatim>\<open>hpar\<close> of the file
  at that path.
\<close>

definition externalObject :: "('f, 'h) extern \<Rightarrow> string \<Rightarrow> 'h option" where
  "externalObject X s =
     (if take 7 s = ''ccdb://'' then ccdb_get X (drop 7 s)
      else case TFile_Open X s of None \<Rightarrow> None | Some f \<Rightarrow> GetObject X f ''hpar'')"

text \<open>
  The content of the bin that carries a label, and a histogram that is well formed: each of
  the eight labels is on the axis (its lookup leaves the histogram as it is and gives a bin
  of the histogram), and the eight bins are different.
\<close>

definition namedBin :: "('f, 'h) extern \<Rightarrow> 'h \<Rightarrow> string \<Rightarrow> float" where
  "namedBin X h l = GetBinContent X h (fst (FindBin X h l))"

definition wellFormed :: "('f, 'h) extern \<Rightarrow> 'h \<Rightarrow> bool" where
  "wellFormed X h =
     (list_all (\<lambda>l. snd (FindBin X h l) = h \<and> 1 \<le> fst (FindBin X h l)
                      \<and> fst (FindBin X h l) \<le> GetNbinsX X h) histLabels
      \<and> distinct (map (\<lambda>l. fst (FindBin X h l)) histLabels))"


section \<open>Collaborators for evaluating the producer\<close>

text \<open>
  A histogram that keeps the contents of its bins \<open>1 .. n\<close> and the labels of the first
  of them. The underflow and overflow bins hold zero. For a label that is not on the axis,
  \<open>FindBin_fixed\<close> is ROOT's answer on an axis that cannot be extended (bin \<open>-1\<close>, the
  histogram unchanged) and \<open>FindBin_extend\<close> its answer on one that can: the label goes
  on the next bin, and when every bin has a label already the number of bins doubles.
\<close>

record TH1F =
  binLabels :: "string list"
  binValues :: "float list"

definition GetNbinsX_ref :: "TH1F \<Rightarrow> int" where
  "GetNbinsX_ref h = int (length (binValues h))"

definition GetBinContent_ref :: "TH1F \<Rightarrow> int \<Rightarrow> float" where
  "GetBinContent_ref h b =
     (if 1 \<le> b \<and> b \<le> int (length (binValues h)) then binValues h ! nat (b - 1) else Finite 0)"

definition FindBin_fixed :: "TH1F \<Rightarrow> string \<Rightarrow> int \<times> TH1F" where
  "FindBin_fixed h l =
     (case indexOf (binLabels h) l of Some i \<Rightarrow> (int i + 1, h) | None \<Rightarrow> (- 1, h))"

definition FindBin_extend :: "TH1F \<Rightarrow> string \<Rightarrow> int \<times> TH1F" where
  "FindBin_extend h l =
     (case indexOf (binLabels h) l of
        Some i \<Rightarrow> (int i + 1, h)
      | None \<Rightarrow>
          (int (length (binLabels h)) + 1,
           \<lparr> binLabels = binLabels h @ [l],
             binValues =
               (if length (binValues h) \<le> length (binLabels h)
                then binValues h @ replicate (length (binValues h)) (Finite 0)
                else binValues h) \<rparr>))"

text \<open>
  A world with a calibration store and a file system; an open file is the histogram
  \<^verbatim>\<open>hpar\<close> it holds, if any.
\<close>

definition rootWorld ::
  "bool \<Rightarrow> (string \<Rightarrow> TH1F option) \<Rightarrow> (string \<Rightarrow> TH1F option option)
     \<Rightarrow> (TH1F option, TH1F) extern" where
  "rootWorld canExtend store files =
     \<lparr> ccdb_get = store, TFile_Open = files,
       GetObject = (\<lambda>f name. if name = ''hpar'' then f else None),
       GetNbinsX = GetNbinsX_ref,
       FindBin = (if canExtend then FindBin_extend else FindBin_fixed),
       GetBinContent = GetBinContent_ref \<rparr>"

definition storeOf :: "string \<Rightarrow> TH1F \<Rightarrow> string \<Rightarrow> TH1F option" where
  "storeOf key h k = (if k = key then Some h else None)"

definition noFiles :: "string \<Rightarrow> TH1F option option" where
  "noFiles path = None"

text \<open>Eight bins with the eight labels.\<close>

definition hparGood :: TH1F where
  "hparGood =
     \<lparr> binLabels = histLabels,
       binValues = [Finite 1, Finite 2, Finite 3, Finite 4, Finite 5, Finite 6, Finite 7, Finite 8] \<rparr>"

text \<open>Eight bins with the eight labels in another order.\<close>

definition hparPermuted :: TH1F where
  "hparPermuted =
     \<lparr> binLabels = [''Resolution'', ''Charge exponent'', ''MIP value'', ''bb5'', ''bb4'', ''bb3'',
                    ''bb2'', ''bb1''],
       binValues = [Finite 8, Finite 7, Finite 6, Finite 5, Finite 4, Finite 3, Finite 2, Finite 1] \<rparr>"

text \<open>Eight bins, each with a label, none of them \<^verbatim>\<open>Resolution\<close>.\<close>

definition hparBad :: TH1F where
  "hparBad =
     \<lparr> binLabels = [''bb1'', ''bb2'', ''bb3'', ''bb4'', ''bb5'', ''MIP value'', ''Charge exponent'',
                    ''Sigma''],
       binValues = [Finite 1, Finite 2, Finite 3, Finite 4, Finite 5, Finite 6, Finite 7, Finite 8] \<rparr>"

text \<open>Eight bins of which the last has no label.\<close>

definition hparUnlabelled :: TH1F where
  "hparUnlabelled =
     \<lparr> binLabels = [''bb1'', ''bb2'', ''bb3'', ''bb4'', ''bb5'', ''MIP value'', ''Charge exponent''],
       binValues = [Finite 1, Finite 2, Finite 3, Finite 4, Finite 5, Finite 6, Finite 7, Finite 8] \<rparr>"

text \<open>
  A library with exact arithmetic whose functions are constant. It stands in where the
  outcome does not depend on what the library computes.
\<close>

definition stubLibrary :: "int library" where
  "stubLibrary =
     \<lparr> rnd = Finite, powf = (\<lambda>a b. Finite 1),
       BetheBlochAleph = (\<lambda>bg kp1 kp2 kp3 kp4 kp5. Finite 1),
       sMasses = (\<lambda>pid. Finite 1), sMasses2Z = (\<lambda>pid. Finite 1), sCharges = (\<lambda>pid. Finite 1),
       packInTable = (\<lambda>v. 0) \<rparr>"




definition track0 :: "int track" where
  "track0 =
     \<lparr> tpcInnerParam = Finite 0.5, tpcSignal = Finite 50,
       tpcNSigmaStore = (\<lambda>pid. 7), tpcExpSigma = (\<lambda>pid. Finite 3), tpcNSigma = (\<lambda>pid. NaN) \<rparr>"

text \<open>A configuration table whose flag \<^verbatim>\<open>Set parameters\<close> is a NaN.\<close>

definition nanTable :: LabeledArray where
  "nanTable x y = (if y = ''Set parameters'' then NaN else Finite 1)"

text \<open>
  Configurations: only the compact mode of species \<open>p\<close> switched on, with a table and a
  locator for it; nothing switched on and one table requested by the workflow; nothing
  switched on and nothing requested, with a table and the same locator for every species;
  and every option at its compiled-in default with the compact mode of every species
  switched on.
\<close>

definition config1 :: "PID \<Rightarrow> LabeledArray \<Rightarrow> string \<Rightarrow> config" where
  "config1 p t loc =
     \<lparr> bbParameters = t, fileParamBb = (\<lambda>pid. if pid = p then loc else ''''),
       doprocess = (\<lambda>pid. pid = p), doprocessFull = (\<lambda>pid. False),
       isTableRequiredInWorkflow = (\<lambda>name. False) \<rparr>"

definition configRequested :: "string \<Rightarrow> config" where
  "configRequested name =
     \<lparr> bbParameters = default_bbParameters, fileParamBb = (\<lambda>pid. ''''),
       doprocess = (\<lambda>pid. False), doprocessFull = (\<lambda>pid. False),
       isTableRequiredInWorkflow = (\<lambda>n. n = name) \<rparr>"

definition configDisabled :: "LabeledArray \<Rightarrow> string \<Rightarrow> config" where
  "configDisabled t loc =
     \<lparr> bbParameters = t, fileParamBb = (\<lambda>pid. loc),
       doprocess = (\<lambda>pid. False), doprocessFull = (\<lambda>pid. False),
       isTableRequiredInWorkflow = (\<lambda>name. False) \<rparr>"

definition configDefault :: config where
  "configDefault =
     \<lparr> bbParameters = default_bbParameters, fileParamBb = (\<lambda>pid. ''''),
       doprocess = (\<lambda>pid. True), doprocessFull = (\<lambda>pid. False),
       isTableRequiredInWorkflow = (\<lambda>name. False) \<rparr>"

section \<open>Auxiliary facts\<close>

subsection \<open>Rounding to single precision\<close>

lemma pow2_powr: "pow2 e = 2 powr (of_int e)"
  by (simp add: pow2_def powr_int)

lemma floor_log2:
  assumes "0 < x" and "pow2 e \<le> x" and "x < pow2 (e + 1)"
  shows "\<lfloor>log 2 x\<rfloor> = e"
proof (rule floor_unique)
  from assms(1,2) show "of_int e \<le> log 2 x"
    by (simp add: le_log_iff pow2_powr)
  from assms(1,3) show "log 2 x < of_int e + 1"
    by (simp add: log_less_iff pow2_powr)
qed

lemma rne_unique:
  assumes "\<bar>x - of_int m\<bar> < 1 / 2"
  shows "rne x = m"
proof -
  from assms have lo: "of_int m - 1 / 2 < x" and hi: "x < of_int m + 1 / 2"
    by linarith+
  show ?thesis
  proof (cases "of_int m \<le> x")
    case True
    with hi have f: "\<lfloor>x\<rfloor> = m"
      by (intro floor_unique) linarith+
    from hi have "x - of_int m < 1 / 2" by linarith
    with f show ?thesis by (simp add: rne_def)
  next
    case False
    with lo have f: "\<lfloor>x\<rfloor> = m - 1"
      by (intro floor_unique) (simp, linarith)
    from lo have "1 / 2 < x - of_int (m - 1)" by simp
    then have "\<not> x - of_int (m - 1) < 1 / 2" by linarith
    with f \<open>1 / 2 < x - of_int (m - 1)\<close> show ?thesis by (simp add: rne_def)
  qed
qed

lemma binary32_eval:
  assumes "x \<noteq> 0" and "- 126 \<le> e"
    and "pow2 e \<le> \<bar>x\<bar>" and "\<bar>x\<bar> < pow2 (e + 1)"
    and "\<bar>x / pow2 (e - 23) - of_int m\<bar> < 1 / 2"
    and "\<bar>of_int m * pow2 (e - 23)\<bar> < pow2 128"
  shows "binary32 x = Finite (of_int m * pow2 (e - 23))"
proof -
  from assms(1) have "0 < \<bar>x\<bar>" by simp
  from floor_log2[OF this assms(3,4)] have "\<lfloor>log 2 \<bar>x\<bar>\<rfloor> = e" .
  with assms(2) have "max \<lfloor>log 2 \<bar>x\<bar>\<rfloor> (- 126) = e" by simp
  moreover have "rne (x / pow2 (e - 23)) = m"
    by (rule rne_unique[OF assms(5)])
  ultimately show ?thesis
    using assms(1,6) by (simp add: binary32_def Let_def)
qed

lemma binary32_bb1: "binary32 0.03209809958934784 = Finite (2154067 / 67108864)"
  using binary32_eval[of "0.03209809958934784" "- 5" 8616268] by (simp add: pow2_def)

lemma binary32_bb2: "binary32 19.9768009185791 = Finite (10473597 / 524288)"
  using binary32_eval[of "19.9768009185791" 4 10473597] by (simp add: pow2_def)

lemma binary32_bb3:
  "binary32 (2.5266601063857674 / 10 ^ 16) = Finite (2386363 / 9444732965739290427392)"
  using binary32_eval[of "2.5266601063857674 / 10 ^ 16" "- 52" 9545452] by (simp add: pow2_def)

lemma binary32_bb4: "binary32 2.7212300300598145 = Finite (5706833 / 2097152)"
  using binary32_eval[of "2.7212300300598145" 1 11413666] by (simp add: pow2_def)

lemma binary32_bb5: "binary32 6.080920219421387 = Finite (6376307 / 1048576)"
  using binary32_eval[of "6.080920219421387" 2 12752614] by (simp add: pow2_def)

lemma binary32_mip: "binary32 50 = Finite 50"
  using binary32_eval[of 50 5 13107200] by (simp add: pow2_def)

lemma binary32_exp: "binary32 2.299999952316284 = Finite (9646899 / 4194304)"
  using binary32_eval[of "2.299999952316284" 1 9646899] by (simp add: pow2_def)

lemma binary32_res: "binary32 0.002 = Finite (8589935 / 4294967296)"
  using binary32_eval[of "0.002" "- 9" 8589935] by (simp add: pow2_def)

lemma default_bbParams_values:
  "default_bbParams =
     \<lparr> bb1 = Finite (2154067 / 67108864), bb2 = Finite (10473597 / 524288),
       bb3 = Finite (2386363 / 9444732965739290427392), bb4 = Finite (5706833 / 2097152),
       bb5 = Finite (6376307 / 1048576), mip = Finite 50,
       exp_par = Finite (9646899 / 4194304), res = Finite (8589935 / 4294967296) \<rparr>"
  unfolding default_bbParams_def binary32_bb1 binary32_bb2 binary32_bb3 binary32_bb4
    binary32_bb5 binary32_mip binary32_exp binary32_res ..






subsection \<open>The cascade\<close>

lemma binContents_unchanged:
  "list_all (\<lambda>l. snd (FindBin X h l) = h) ls \<Longrightarrow>
     binContents X h ls = (map (namedBin X h) ls, h)"
  by (induction ls) (simp_all add: split_def Let_def namedBin_def)

lemma wellFormed_binContents:
  "wellFormed X h \<Longrightarrow> binContents X h histLabels = (map (namedBin X h) histLabels, h)"
  by (rule binContents_unchanged) (simp add: wellFormed_def list_all_iff)

lemma length_binContents: "length (fst (binContents X h ls)) = length ls"
  by (induction ls arbitrary: h) (simp_all add: split_def Let_def)

lemma setValues_vector_8:
  "length v = 8 \<Longrightarrow> setValues_vector v st = (True, vectorParams v,
       snd st @ [(Info, ''Before: set of parameters''), (Info, ''After: set of parameters'')])"
  by (simp add: setValues_vector_def vectorParams_def)

lemma setValues_table_below:
  "flt (p particle ''Set parameters'') (Finite 1.5) \<Longrightarrow>
     fst (snd (setValues_table particle p st)) = fst st"
  by (simp add: setValues_table_def)

lemma setValues_string_short:
  "length s \<le> 1 \<Longrightarrow> setValues_string X s st = Inr (False, st)"
  by (simp add: setValues_string_def)

lemma initSpecies_other:
  "initSpecies C X pid s = Inr s' \<Longrightarrow> q \<noteq> pid \<Longrightarrow> bbs s' q = bbs s q"
  by (auto simp: initSpecies_def Let_def split: if_splits sum.splits)

lemma initFrom_notin:
  "initFrom C X ids s = Inr s' \<Longrightarrow> q \<notin> set ids \<Longrightarrow> bbs s' q = bbs s q"
proof (induction ids arbitrary: s)
  case Nil
  then show ?case by simp
next
  case (Cons a ids)
  then show ?case
    by (auto split: sum.splits dest: initSpecies_other)
qed

lemma initSpecies_unchanged:
  assumes "flt (bbParameters C (particleName q) ''Set parameters'') (Finite 1.5)"
    and "length (fileParamBb C q) \<le> 1"
    and "initSpecies C X q s = Inr s'"
  shows "bbs s' q = bbs s q"
  using assms
  by (auto simp: initSpecies_def Let_def setValues_string_short setValues_table_below
      split: if_splits sum.splits)

lemma initFrom_unchanged:
  assumes "flt (bbParameters C (particleName q) ''Set parameters'') (Finite 1.5)"
    and "length (fileParamBb C q) \<le> 1"
  shows "initFrom C X ids s = Inr s' \<Longrightarrow> bbs s' q = bbs s q"
proof (induction ids arbitrary: s)
  case Nil
  then show ?case by simp
next
  case (Cons a ids)
  then obtain s1 where s1: "initSpecies C X a s = Inr s1" and rest: "initFrom C X ids s1 = Inr s'"
    by (auto split: sum.splits)
  have "bbs s1 q = bbs s q"
  proof (cases "a = q")
    case True
    with s1 initSpecies_unchanged[OF assms] show ?thesis by blast
  next
    case False
    with s1 show ?thesis by (auto dest: initSpecies_other)
  qed
  with Cons.IH[OF rest] show ?case by simp
qed

lemma initFrom_resolved:
  fixes s :: "'b lfTpcPid"
  assumes "\<And>(s0 :: 'b lfTpcPid) s1. initSpecies C X q s0 = Inr s1 \<Longrightarrow> bbs s1 q = D"
  shows "distinct ids \<Longrightarrow> q \<in> set ids \<Longrightarrow> initFrom C X ids s = Inr s' \<Longrightarrow> bbs s' q = D"
proof (induction ids arbitrary: s)
  case Nil
  then show ?case by simp
next
  case (Cons a ids)
  then obtain s1 where s1: "initSpecies C X a s = Inr s1" and rest: "initFrom C X ids s1 = Inr s'"
    by (auto split: sum.splits)
  show ?case
  proof (cases "a = q")
    case True
    with s1 assms have "bbs s1 q = D" by blast
    moreover from True Cons.prems(1) have "q \<notin> set ids" by simp
    ultimately show ?thesis using initFrom_notin[OF rest] by simp
  next
    case False
    with Cons.prems have "q \<in> set ids" "distinct ids" by auto
    with Cons.IH[OF _ _ rest] show ?thesis by simp
  qed
qed

lemma initFrom_abort:
  fixes s :: "'b lfTpcPid"
  assumes "\<And>s :: 'b lfTpcPid. \<exists>a. initSpecies C X q s = Inl a"
  shows "q \<in> set ids \<Longrightarrow> \<exists>a. initFrom C X ids s = Inl a"
proof (induction ids arbitrary: s)
  case Nil
  then show ?case by simp
next
  case (Cons a ids)
  show ?case
  proof (cases "initSpecies C X a s")
    case (Inl e)
    then show ?thesis by simp
  next
    case (Inr s1)
    with assms have "a \<noteq> q" by (metis sum.distinct(1))
    with Cons.prems have "q \<in> set ids" by simp
    from Cons.IH[OF this] Inr show ?thesis by simp
  qed
qed

lemma allSpecies_all: "q \<in> set allSpecies"
  by (cases q) (simp_all add: allSpecies_def)

lemma allSpecies_distinct: "distinct allSpecies"
  by (simp add: allSpecies_def)


lemma setValues_TH1F_Some:
  "setValues_TH1F X (Some h) st =
     (if GetNbinsX X (snd (binContents X h histLabels)) \<noteq> GetNbinsX X h
      then Inr (False, fst st,
                snd st @ [(Error, ''The input histogram of Bethe-Bloch parameters has the wrong size'')])
      else Inr (True, vectorParams (fst (binContents X h histLabels)),
                snd st @ [(Info, ''Setting custom Bethe-Bloch parameters from histogram''),
                          (Info, ''Before: set of parameters''),
                          (Info, ''After: set of parameters'')]))"
proof -
  have "length (fst (binContents X h histLabels)) = length histLabels"
    by (rule length_binContents)
  also have "\<dots> = 8"
    by (simp add: histLabels_def)
  finally show ?thesis
    by (simp add: setValues_TH1F_def split_def Let_def setValues_vector_8)
qed

lemma setValues_string_object:
  assumes "1 < length s" and "externalObject X s = Some h"
    and "GetNbinsX X (snd (binContents X h histLabels)) = GetNbinsX X h"
  shows "\<exists>l. setValues_string X s st = Inr (True, vectorParams (fst (binContents X h histLabels)), l)"
  using assms
  by (auto simp: setValues_string_def externalObject_def setValues_TFile_def setValues_TH1F_Some
      split: if_splits option.splits)

lemma initSpecies_object:
  assumes "doprocess C pid \<or> doprocessFull C pid"
    and "1 < length (fileParamBb C pid)" and "externalObject X (fileParamBb C pid) = Some h"
    and "GetNbinsX X (snd (binContents X h histLabels)) = GetNbinsX X h"
  shows "\<exists>s'. initSpecies C X pid s = Inr s'
            \<and> bbs s' pid = vectorParams (fst (binContents X h histLabels))"
proof -
  obtain st1 where st1: "st1 = snd (setValues_table (particleName pid) (bbParameters C)
      (bbs s pid, logs s @ (if pid = Alpha then [] else [(Info, ''Enabling '' @ speciesName pid)])))"
    by simp
  from setValues_string_object[OF assms(2,3,4), of st1] obtain l where
    "setValues_string X (fileParamBb C pid) st1
       = Inr (True, vectorParams (fst (binContents X h histLabels)), l)" by blast
  with assms(1) st1 show ?thesis
    by (simp add: initSpecies_def Let_def)
qed

lemma setValues_string_null:
  assumes "1 < length s"
    and "if take 7 s = ''ccdb://'' then ccdb_get X (drop 7 s) = None else TFile_Open X s = None"
  shows "setValues_string X s st = Inl NullPointerDereference"
  using assms
  by (auto simp: setValues_string_def setValues_TFile_def setValues_TH1F_def split: if_splits)

lemma initSpecies_fatal:
  assumes "\<not> doprocess C pid" and "\<not> doprocessFull C pid"
    and "isTableRequiredInWorkflow C (''pidTPCLf'' @ particleName pid)
         \<or> isTableRequiredInWorkflow C (''pidTPCLfFull'' @ particleName pid)"
  shows "initSpecies C X pid s
         = Inl (Fatal (''Requested '' @ speciesName pid @ '' table but not enabled in configuration''))"
  using assms by (simp add: initSpecies_def)

lemma runTask_abort:
  "init C X (lfTpcPid0 :: 'b lfTpcPid) = Inl a \<Longrightarrow> runTask (L :: 'b library) C X batches = Inl a"
  by (simp add: runTask_def)

lemma resolution_NaN_mip:
  "mip params = NaN \<Longrightarrow> BetheBlochResolutionLf L pid trk params = NaN"
  by (simp add: BetheBlochResolutionLf_def BetheBlochLf_def Let_def fsub_def)

lemma fge_not_flt: "a \<noteq> NaN \<Longrightarrow> fge a (Finite c) = (\<not> flt a (Finite c))"
  by (cases a) simp_all

lemma fabs_sign: "fabs x = NaN \<or> fge (fabs x) (Finite 0)"
  by (cases x) simp_all

lemma fabs_not_negative: "\<not> flt (fabs x) (Finite 0)"
  by (cases x) simp_all

lemma default_bbParameters_zero: "default_bbParameters x y = Finite 0"
  by (auto simp: default_bbParameters_def labeledArray_def defaultParameters_def
      split: option.splits)

lemmas eval_defs =
  init_def allSpecies_def initSpecies_def config1_def configRequested_def lfTpcPid0_def
  setValues_table_def setValues_string_def setValues_TH1F_def setValues_TFile_def
  setValues_vector_def rootWorld_def storeOf_def noFiles_def histLabels_def hparGood_def
  hparBad_def FindBin_fixed_def FindBin_extend_def GetNbinsX_ref_def GetBinContent_ref_def
  vectorParams_def externalObject_def hparPermuted_def configDisabled_def Let_def


section \<open>Properties of parameter resolution\<close>

text \<open>
  C2. When a species is enabled, its table row asks for an override (flag at least 1.5),
  and its locator is longer than one character and resolves to a well-formed histogram,
  the block of \<^verbatim>\<open>init\<close> for the species returns and leaves as the parameter set the
  contents of the bins that carry the eight labels, not the values of the table; and so
  does every run of \<^verbatim>\<open>init\<close> that returns.
\<close>

theorem external_locator_overrides_table:
  fixes s :: "'b lfTpcPid"
  assumes "doprocess C pid \<or> doprocessFull C pid"
    and "fge (bbParameters C (particleName pid) ''Set parameters'') (Finite 1.5)"
    and "1 < length (fileParamBb C pid)"
    and "externalObject X (fileParamBb C pid) = Some h"
    and "wellFormed X h"
  shows "(\<exists>s'. initSpecies C X pid s = Inr s'
              \<and> bbs s' pid =
                  \<lparr> bb1 = namedBin X h ''bb1'', bb2 = namedBin X h ''bb2'',
                    bb3 = namedBin X h ''bb3'', bb4 = namedBin X h ''bb4'',
                    bb5 = namedBin X h ''bb5'', mip = namedBin X h ''MIP value'',
                    exp_par = namedBin X h ''Charge exponent'',
                    res = namedBin X h ''Resolution'' \<rparr>)
       \<and> (case init C X s of
            Inl a \<Rightarrow> True
          | Inr s' \<Rightarrow>
              bbs s' pid =
                \<lparr> bb1 = namedBin X h ''bb1'', bb2 = namedBin X h ''bb2'',
                  bb3 = namedBin X h ''bb3'', bb4 = namedBin X h ''bb4'',
                  bb5 = namedBin X h ''bb5'', mip = namedBin X h ''MIP value'',
                  exp_par = namedBin X h ''Charge exponent'',
                  res = namedBin X h ''Resolution'' \<rparr>)"
proof -
  let ?D = "\<lparr> bb1 = namedBin X h ''bb1'', bb2 = namedBin X h ''bb2'',
                bb3 = namedBin X h ''bb3'', bb4 = namedBin X h ''bb4'',
                bb5 = namedBin X h ''bb5'', mip = namedBin X h ''MIP value'',
                exp_par = namedBin X h ''Charge exponent'',
                res = namedBin X h ''Resolution'' \<rparr>"
  note read = wellFormed_binContents[OF assms(5)]
  have same: "GetNbinsX X (snd (binContents X h histLabels)) = GetNbinsX X h"
    by (simp add: read)
  have vals: "vectorParams (fst (binContents X h histLabels)) = ?D"
    unfolding read by (simp add: vectorParams_def histLabels_def)
  have block: "\<exists>s1. initSpecies C X pid s0 = Inr s1 \<and> bbs s1 pid = ?D"
    for s0 :: "'b lfTpcPid"
    using initSpecies_object[OF assms(1,3,4) same, of s0] unfolding vals .
  have after: "bbs s1 pid = ?D" if "initSpecies C X pid s0 = Inr s1" for s0 s1 :: "'b lfTpcPid"
    using block[of s0] that by auto
  have "case init C X s of Inl a \<Rightarrow> True | Inr s' \<Rightarrow> bbs s' pid = ?D"
    using initFrom_resolved[OF after allSpecies_distinct allSpecies_all]
    by (auto simp: init_def split: sum.splits)
  with block[of s] show ?thesis by (rule conjI)
qed

text \<open>
  Pion with a table of twos and a locator into the calibration store, where the histogram
  has its labels in another order than the lookups: the parameter set holds the content
  of the bin of each name, and Kaon keeps the defaults.
\<close>

theorem external_locator_overrides_table_witness:
  "fge (Finite 2) (Finite 1.5)
   \<and> wellFormed (rootWorld False (storeOf ''Analysis/PID/TPC/hpar'' hparPermuted) noFiles)
       hparPermuted
   \<and> (case init (config1 Pion (\<lambda>x y. Finite 2) ''ccdb://Analysis/PID/TPC/hpar'')
              (rootWorld False (storeOf ''Analysis/PID/TPC/hpar'' hparPermuted) noFiles)
              (lfTpcPid0 :: int lfTpcPid) of
        Inl a \<Rightarrow> False
      | Inr s \<Rightarrow>
          bbs s Pion =
            \<lparr> bb1 = Finite 1, bb2 = Finite 2, bb3 = Finite 3, bb4 = Finite 4, bb5 = Finite 5,
              mip = Finite 6, exp_par = Finite 7, res = Finite 8 \<rparr>
          \<and> bbs s Kaon = default_bbParams)"
  using external_locator_overrides_table
    [of "config1 Pion (\<lambda>x y. Finite 2) ''ccdb://Analysis/PID/TPC/hpar''" Pion
        "rootWorld False (storeOf ''Analysis/PID/TPC/hpar'' hparPermuted) noFiles" hparPermuted
        "lfTpcPid0 :: int lfTpcPid"]
  by (simp add: eval_defs wellFormed_def namedBin_def)

text \<open>
  A species with neither mode switched on is not resolved: with the same table and the
  same locator for every species and nothing switched on, \<^verbatim>\<open>init\<close> returns and Pion
  keeps the default \<open>mip\<close> of 50, where the bin \<^verbatim>\<open>MIP value\<close> holds 6.
\<close>

theorem external_locator_disabled_counterexample:
  "fge (bbParameters (configDisabled (\<lambda>x y. Finite 2) ''ccdb://Analysis/PID/TPC/hpar'')
          (particleName Pion) ''Set parameters'') (Finite 1.5)
   \<and> 1 < length (fileParamBb (configDisabled (\<lambda>x y. Finite 2) ''ccdb://Analysis/PID/TPC/hpar'') Pion)
   \<and> externalObject (rootWorld False (storeOf ''Analysis/PID/TPC/hpar'' hparPermuted) noFiles)
        (fileParamBb (configDisabled (\<lambda>x y. Finite 2) ''ccdb://Analysis/PID/TPC/hpar'') Pion)
       = Some hparPermuted
   \<and> wellFormed (rootWorld False (storeOf ''Analysis/PID/TPC/hpar'' hparPermuted) noFiles)
       hparPermuted
   \<and> namedBin (rootWorld False (storeOf ''Analysis/PID/TPC/hpar'' hparPermuted) noFiles)
       hparPermuted ''MIP value'' = Finite 6
   \<and> (case init (configDisabled (\<lambda>x y. Finite 2) ''ccdb://Analysis/PID/TPC/hpar'')
              (rootWorld False (storeOf ''Analysis/PID/TPC/hpar'' hparPermuted) noFiles)
              (lfTpcPid0 :: int lfTpcPid) of
        Inl a \<Rightarrow> False
      | Inr s \<Rightarrow> bbs s Pion = default_bbParams \<and> mip (bbs s Pion) = Finite 50)"
  by (simp add: eval_defs wellFormed_def namedBin_def default_bbParams_values)

section \<open>Properties of the energy-loss and resolution models\<close>




text \<open>
  C3. The expected resolution is \<^verbatim>\<open>std::abs(dEdx2 - dEdx)\<close>, where \<open>dEdx\<close> is the
  expected signal, \<open>deltaP = res * sqrt(dEdx)\<close>, the curve is evaluated again at
  \<open>innerParam * (1 + deltaP) * (1 / sMasses[id])\<close> and scaled by the same \<open>mip\<close> and
  charge factor. The result is a NaN or at least zero; it is never below zero.
\<close>

theorem resolution_is_NaN_or_nonnegative:
  "BetheBlochResolutionLf L pid trk params =
     fabs (fsub (rnd L)
             (fmul (rnd L)
                (fmul (rnd L) (mip params)
                   (BetheBlochAleph L
                      (fmul (rnd L)
                         (fmul (rnd L) (tpcInnerParam trk)
                            (fadd (rnd L) (Finite 1)
                               (fmul (rnd L) (res params)
                                  (fsqrt (rnd L) (BetheBlochLf L pid trk params)))))
                         (fdiv (rnd L) (Finite 1) (sMasses L pid)))
                      (bb1 params) (bb2 params) (bb3 params) (bb4 params) (bb5 params)))
                (powf L (sCharges L pid) (exp_par params)))
             (BetheBlochLf L pid trk params))
   \<and> (BetheBlochResolutionLf L pid trk params = NaN
        \<or> fge (BetheBlochResolutionLf L pid trk params) (Finite 0))
   \<and> \<not> flt (BetheBlochResolutionLf L pid trk params) (Finite 0)"
proof -
  obtain x where x: "BetheBlochResolutionLf L pid trk params = fabs x"
    by (simp add: BetheBlochResolutionLf_def Let_def)
  have "BetheBlochResolutionLf L pid trk params = NaN
        \<or> fge (BetheBlochResolutionLf L pid trk params) (Finite 0)"
    unfolding x by (rule fabs_sign)
  moreover have "\<not> flt (BetheBlochResolutionLf L pid trk params) (Finite 0)"
    unfolding x by (rule fabs_not_negative)
  ultimately show ?thesis
    by (simp add: BetheBlochResolutionLf_def Let_def)
qed

text \<open>
  With a NaN for \<open>mip\<close> the resolution of a track with positive \<open>innerParam\<close> is a NaN,
  which is not \<open>>= 0\<close>. Lemma \<open>resolution_NaN_mip\<close> shows it for every library.
\<close>

theorem resolution_nonnegative_counterexample:
  "flt (Finite 0) (tpcInnerParam track0)
   \<and> \<not> fge (BetheBlochResolutionLf stubLibrary Pion track0 (default_bbParams\<lparr>mip := NaN\<rparr>))
            (Finite 0)"
  by (simp add: resolution_NaN_mip track0_def)

section \<open>Properties of the external sources\<close>

text \<open>
  C4. For an enabled species whose locator is longer than one character, when the
  calibration store has no object under the key (\<^verbatim>\<open>get\<close> returns a null pointer), or
  the file does not open (\<^verbatim>\<open>TFile::Open\<close> returns a null pointer), \<^verbatim>\<open>setValues\<close> calls
  a member function through the null pointer: the block of the species does not return,
  neither does \<^verbatim>\<open>init\<close>, and no batch is processed. The parameter set does not fall
  back to the previous tier.
\<close>

theorem failed_fetch_dereferences_null:
  fixes s :: "'b lfTpcPid" and L :: "'b library"
  assumes "doprocess C pid \<or> doprocessFull C pid"
    and "1 < length (fileParamBb C pid)"
    and "if take 7 (fileParamBb C pid) = ''ccdb://''
         then ccdb_get X (drop 7 (fileParamBb C pid)) = None
         else TFile_Open X (fileParamBb C pid) = None"
  shows "setValues_string X (fileParamBb C pid) st = Inl NullPointerDereference
       \<and> initSpecies C X pid s = Inl NullPointerDereference
       \<and> (\<exists>a. init C X s = Inl a)
       \<and> (\<exists>a. runTask L C X batches = Inl a)"
proof -
  have str: "setValues_string X (fileParamBb C pid) st' = Inl NullPointerDereference" for st'
    by (rule setValues_string_null[OF assms(2,3)])
  have block: "initSpecies C X pid s0 = Inl NullPointerDereference" for s0 :: "'b lfTpcPid"
    using assms(1) by (simp add: initSpecies_def Let_def str)
  have ini: "\<exists>a. init C X s0 = Inl a" for s0 :: "'b lfTpcPid"
    unfolding init_def
    by (rule initFrom_abort[OF _ allSpecies_all, of C X pid]) (simp add: block)
  from ini[of lfTpcPid0] have "\<exists>a. runTask L C X batches = Inl a"
    by (auto dest: runTask_abort)
  with str block ini show ?thesis by blast
qed

text \<open>Pion with a path where no file is, and with a key the store does not have.\<close>

theorem failed_fetch_dereferences_null_witness:
  "init (config1 Pion default_bbParameters ''pid.root'')
        (rootWorld False (storeOf ''Analysis/PID/TPC/hpar'' hparGood) noFiles)
        (lfTpcPid0 :: int lfTpcPid) = Inl NullPointerDereference
   \<and> init (config1 Pion default_bbParameters ''ccdb://Analysis/PID/TPC/missing'')
        (rootWorld False (storeOf ''Analysis/PID/TPC/hpar'' hparGood) noFiles)
        (lfTpcPid0 :: int lfTpcPid) = Inl NullPointerDereference"
  using failed_fetch_dereferences_null
    [of "config1 Pion default_bbParameters ''pid.root''" Pion
        "rootWorld False (storeOf ''Analysis/PID/TPC/hpar'' hparGood) noFiles"
        "(default_bbParams, [])" "lfTpcPid0 :: int lfTpcPid" stubLibrary "[]"]
  by (simp add: eval_defs default_bbParameters_zero)

text \<open>
  C5. \<^verbatim>\<open>setValues(TH1F*)\<close> on a histogram fails, logs an error and keeps the parameter
  set exactly when the number of bins after the eight lookups differs from the number
  before them. When the number is the same it overwrites all eight constants with the
  contents of the bins that the lookups returned.
\<close>

theorem histogram_rejected_iff_bin_count_changes:
  "setValues_TH1F X (Some h) st =
     (if GetNbinsX X (snd (binContents X h histLabels)) \<noteq> GetNbinsX X h
      then Inr (False, fst st,
                snd st @ [(Error, ''The input histogram of Bethe-Bloch parameters has the wrong size'')])
      else Inr (True,
                \<lparr> bb1 = fst (binContents X h histLabels) ! 0,
                  bb2 = fst (binContents X h histLabels) ! 1,
                  bb3 = fst (binContents X h histLabels) ! 2,
                  bb4 = fst (binContents X h histLabels) ! 3,
                  bb5 = fst (binContents X h histLabels) ! 4,
                  mip = fst (binContents X h histLabels) ! 5,
                  exp_par = fst (binContents X h histLabels) ! 6,
                  res = fst (binContents X h histLabels) ! 7 \<rparr>,
                snd st @ [(Info, ''Setting custom Bethe-Bloch parameters from histogram''),
                          (Info, ''Before: set of parameters''),
                          (Info, ''After: set of parameters'')]))"
  by (simp add: setValues_TH1F_Some vectorParams_def)

text \<open>
  On an axis that can be extended, the lookup of the missing label doubles the eight
  labelled bins, and the histogram is rejected.
\<close>

theorem histogram_rejected_iff_bin_count_changes_witness:
  "setValues_TH1F (rootWorld True (storeOf ''k'' hparBad) noFiles) (Some hparBad)
     (default_bbParams, []) =
   Inr (False, default_bbParams,
        [(Error, ''The input histogram of Bethe-Bloch parameters has the wrong size'')])"
  using histogram_rejected_iff_bin_count_changes
    [of "rootWorld True (storeOf ''k'' hparBad) noFiles" hparBad "(default_bbParams, [])"]
  by (simp add: rootWorld_def histLabels_def hparBad_def FindBin_extend_def GetNbinsX_ref_def
      GetBinContent_ref_def Let_def)

text \<open>
  A histogram with no bin labelled \<^verbatim>\<open>Resolution\<close> and one bin without a label is
  accepted on both kinds of axis, with no error logged: \<open>res\<close> becomes the content of the
  underflow bin on the axis that cannot be extended, and of the unlabelled bin on the one
  that can.
\<close>

theorem malformed_histogram_counterexample:
  "indexOf (binLabels hparUnlabelled) ''Resolution'' = None
   \<and> setValues_TH1F (rootWorld False (storeOf ''k'' hparUnlabelled) noFiles) (Some hparUnlabelled)
       (default_bbParams, []) =
     Inr (True,
          \<lparr> bb1 = Finite 1, bb2 = Finite 2, bb3 = Finite 3, bb4 = Finite 4, bb5 = Finite 5,
            mip = Finite 6, exp_par = Finite 7, res = Finite 0 \<rparr>,
          [(Info, ''Setting custom Bethe-Bloch parameters from histogram''),
           (Info, ''Before: set of parameters''),
           (Info, ''After: set of parameters'')])
   \<and> setValues_TH1F (rootWorld True (storeOf ''k'' hparUnlabelled) noFiles) (Some hparUnlabelled)
       (default_bbParams, []) =
     Inr (True,
          \<lparr> bb1 = Finite 1, bb2 = Finite 2, bb3 = Finite 3, bb4 = Finite 4, bb5 = Finite 5,
            mip = Finite 6, exp_par = Finite 7, res = Finite 8 \<rparr>,
          [(Info, ''Setting custom Bethe-Bloch parameters from histogram''),
           (Info, ''Before: set of parameters''),
           (Info, ''After: set of parameters'')])"
  by (simp add: setValues_TH1F_def setValues_vector_def rootWorld_def histLabels_def
      hparUnlabelled_def FindBin_fixed_def FindBin_extend_def GetNbinsX_ref_def
      GetBinContent_ref_def Let_def)

section \<open>Properties of the defaults and of the table\<close>

text \<open>
  C6. With a flag \<^verbatim>\<open>Set parameters\<close> below 1.5 and a locator of length at most one, the
  parameter set of the species after its block of \<^verbatim>\<open>init\<close>, and after every run of
  \<^verbatim>\<open>init\<close> that returns, is the compiled-in default: the eight single-precision values
  written here, which are the values of the eight literals. The block can only abort when
  neither mode of the species is enabled.
\<close>

theorem defaults_without_override:
  assumes "flt (bbParameters C (particleName pid) ''Set parameters'') (Finite 1.5)"
    and "length (fileParamBb C pid) \<le> 1"
  shows "(case initSpecies C X pid (lfTpcPid0 :: 'b lfTpcPid) of
            Inl a \<Rightarrow> \<not> doprocess C pid \<and> \<not> doprocessFull C pid
          | Inr s \<Rightarrow>
              bbs s pid =
                \<lparr> bb1 = Finite (2154067 / 67108864), bb2 = Finite (10473597 / 524288),
                  bb3 = Finite (2386363 / 9444732965739290427392),
                  bb4 = Finite (5706833 / 2097152), bb5 = Finite (6376307 / 1048576),
                  mip = Finite 50, exp_par = Finite (9646899 / 4194304),
                  res = Finite (8589935 / 4294967296) \<rparr>)
       \<and> (case init C X (lfTpcPid0 :: 'b lfTpcPid) of
            Inl a \<Rightarrow> True
          | Inr s \<Rightarrow>
              bbs s pid =
                \<lparr> bb1 = Finite (2154067 / 67108864), bb2 = Finite (10473597 / 524288),
                  bb3 = Finite (2386363 / 9444732965739290427392),
                  bb4 = Finite (5706833 / 2097152), bb5 = Finite (6376307 / 1048576),
                  mip = Finite 50, exp_par = Finite (9646899 / 4194304),
                  res = Finite (8589935 / 4294967296) \<rparr>)
       \<and> \<lparr> bb1 = Finite (2154067 / 67108864), bb2 = Finite (10473597 / 524288),
           bb3 = Finite (2386363 / 9444732965739290427392),
           bb4 = Finite (5706833 / 2097152), bb5 = Finite (6376307 / 1048576),
           mip = Finite 50, exp_par = Finite (9646899 / 4194304),
           res = Finite (8589935 / 4294967296) \<rparr>
         = \<lparr> bb1 = binary32 0.03209809958934784, bb2 = binary32 19.9768009185791,
             bb3 = binary32 (2.5266601063857674 / 10 ^ 16), bb4 = binary32 2.7212300300598145,
             bb5 = binary32 6.080920219421387, mip = binary32 50,
             exp_par = binary32 2.299999952316284, res = binary32 0.002 \<rparr>"
proof -
  have start: "bbs (lfTpcPid0 :: 'b lfTpcPid) pid = default_bbParams"
    by (simp add: lfTpcPid0_def)
  have block: "case initSpecies C X pid (lfTpcPid0 :: 'b lfTpcPid) of
                 Inl a \<Rightarrow> \<not> doprocess C pid \<and> \<not> doprocessFull C pid
               | Inr s \<Rightarrow> bbs s pid = default_bbParams"
    by (simp add: initSpecies_def Let_def setValues_string_short[OF assms(2)]
        setValues_table_below[where p = "bbParameters C" and particle = "particleName pid", OF assms(1)] start)
  have whole: "case init C X (lfTpcPid0 :: 'b lfTpcPid) of
                 Inl a \<Rightarrow> True
               | Inr s \<Rightarrow> bbs s pid = default_bbParams"
  proof (cases "init C X (lfTpcPid0 :: 'b lfTpcPid)")
    case (Inl a)
    then show ?thesis by simp
  next
    case (Inr s)
    then have "initFrom C X allSpecies (lfTpcPid0 :: 'b lfTpcPid) = Inr s"
      by (simp add: init_def)
    from initFrom_unchanged[OF assms this] start Inr show ?thesis by simp
  qed
  note literals = trans[OF default_bbParams_values[symmetric] default_bbParams_def]
  from block[unfolded default_bbParams_values] whole[unfolded default_bbParams_values] literals
  show ?thesis by (intro conjI)
qed

text \<open>Pion with the default table and an empty locator.\<close>

theorem defaults_without_override_witness:
  "flt (default_bbParameters ''Pi'' ''Set parameters'') (Finite 1.5)
   \<and> length '''' \<le> (1 :: nat)
   \<and> (case init (config1 Pion default_bbParameters '''')
              (rootWorld False (storeOf ''Analysis/PID/TPC/hpar'' hparGood) noFiles)
              (lfTpcPid0 :: int lfTpcPid) of
        Inl a \<Rightarrow> False
      | Inr s \<Rightarrow>
          bbs s Pion =
            \<lparr> bb1 = Finite (2154067 / 67108864), bb2 = Finite (10473597 / 524288),
              bb3 = Finite (2386363 / 9444732965739290427392),
              bb4 = Finite (5706833 / 2097152), bb5 = Finite (6376307 / 1048576),
              mip = Finite 50, exp_par = Finite (9646899 / 4194304),
              res = Finite (8589935 / 4294967296) \<rparr>)"
proof -
  have "\<exists>s. init (config1 Pion default_bbParameters '''')
              (rootWorld False (storeOf ''Analysis/PID/TPC/hpar'' hparGood) noFiles)
              (lfTpcPid0 :: int lfTpcPid) = Inr s"
    by (simp add: eval_defs default_bbParameters_zero)
  then obtain s where run: "init (config1 Pion default_bbParameters '''')
              (rootWorld False (storeOf ''Analysis/PID/TPC/hpar'' hparGood) noFiles)
              (lfTpcPid0 :: int lfTpcPid) = Inr s" ..
  have hyp: "flt (bbParameters (config1 Pion default_bbParameters '''') (particleName Pion)
                ''Set parameters'') (Finite 1.5)"
    "length (fileParamBb (config1 Pion default_bbParameters '''') Pion) \<le> 1"
    by (simp_all add: config1_def default_bbParameters_zero)
  from defaults_without_override[OF hyp,
      of "rootWorld False (storeOf ''Analysis/PID/TPC/hpar'' hparGood) noFiles",
      where ?'b = int, THEN conjunct2, THEN conjunct1]
  show ?thesis
    unfolding run by (simp add: default_bbParameters_zero)
qed

text \<open>
  C7. \<^verbatim>\<open>setValues(particle, table)\<close> leaves the parameter set unchanged when the flag
  \<^verbatim>\<open>Set parameters\<close> is below 1.5, and overwrites all eight constants from the row in
  every other case: for a flag of at least 1.5 and for a NaN. So for a flag that is not a
  NaN it overwrites exactly when the flag is at least 1.5.
  \<^verbatim>\<open>setValues(std::vector<float>)\<close> overwrites from a vector of length eight; for any other
  length it logs an error and leaves the parameter set unchanged.
\<close>

theorem table_overrides_unless_flag_below:
  "setValues_table particle p st =
     (if flt (p particle ''Set parameters'') (Finite 1.5)
      then (False, fst st, snd st @ [(Info, ''Using default for '' @ particle)])
      else (True,
            \<lparr> bb1 = p particle ''bb1'', bb2 = p particle ''bb2'', bb3 = p particle ''bb3'',
              bb4 = p particle ''bb4'', bb5 = p particle ''bb5'', mip = p particle ''MIP value'',
              exp_par = p particle ''Charge exponent'', res = p particle ''Resolution'' \<rparr>,
            snd st @ [(Info, ''Setting custom Bethe-Bloch parameters for mass hypothesis '' @ particle),
                      (Info, ''Before: set of parameters''),
                      (Info, ''After: set of parameters'')]))
   \<and> (p particle ''Set parameters'' \<noteq> NaN \<longrightarrow>
        fst (setValues_table particle p st) = fge (p particle ''Set parameters'') (Finite 1.5))
   \<and> setValues_vector v st =
     (if length v = 8
      then (True,
            \<lparr> bb1 = v ! 0, bb2 = v ! 1, bb3 = v ! 2, bb4 = v ! 3, bb5 = v ! 4,
              mip = v ! 5, exp_par = v ! 6, res = v ! 7 \<rparr>,
            snd st @ [(Info, ''Before: set of parameters''), (Info, ''After: set of parameters'')])
      else (False, fst st,
            snd st @ [(Error, ''The vector of Bethe-Bloch parameters has the wrong size'')]))"
  by (simp add: setValues_table_def setValues_vector_def fge_not_flt)

text \<open>A row with the flag 2 overwrites, a row with the flag 1 does not.\<close>

theorem table_overrides_unless_flag_below_witness:
  "Finite 2 \<noteq> NaN
   \<and> fst (setValues_table ''Ka'' (\<lambda>x y. Finite 2) (default_bbParams, []))
   \<and> fst (snd (setValues_table ''Ka'' (\<lambda>x y. Finite 2) (default_bbParams, []))) =
       \<lparr> bb1 = Finite 2, bb2 = Finite 2, bb3 = Finite 2, bb4 = Finite 2, bb5 = Finite 2,
         mip = Finite 2, exp_par = Finite 2, res = Finite 2 \<rparr>
   \<and> setValues_table ''Ka'' (\<lambda>x y. Finite 1) (default_bbParams, []) =
       (False, default_bbParams, [(Info, ''Using default for Ka'')])"
  using table_overrides_unless_flag_below
    [of "''Ka''" "\<lambda>x y. Finite 2" "(default_bbParams, [])" "[]"]
    table_overrides_unless_flag_below
    [of "''Ka''" "\<lambda>x y. Finite 1" "(default_bbParams, [])" "[]"]
  by simp

text \<open>A NaN flag is not \<open>>= 1.5\<close>, and the row overwrites the defaults.\<close>

theorem table_flag_counterexample:
  "\<not> fge (nanTable ''Pi'' ''Set parameters'') (Finite 1.5)
   \<and> fst (setValues_table ''Pi'' nanTable (default_bbParams, []))
   \<and> fst (snd (setValues_table ''Pi'' nanTable (default_bbParams, []))) =
       \<lparr> bb1 = Finite 1, bb2 = Finite 1, bb3 = Finite 1, bb4 = Finite 1, bb5 = Finite 1,
         mip = Finite 1, exp_par = Finite 1, res = Finite 1 \<rparr>"
  by (simp add: setValues_table_def setValues_vector_def nanTable_def)

section \<open>Properties of the processors and of the start-up check\<close>

text \<open>
  C8. When the flag \<^verbatim>\<open>Use default tiny\<close> of the species is at least 1.5, the compact
  process appends the stored compact value of each track, in order, and changes nothing
  else; when \<^verbatim>\<open>Use default full\<close> is at least 1.5, the full process appends the stored
  pair of each track. Neither result depends on the library: the models are not evaluated.
\<close>

theorem stored_values_pass_through:
  "(fge (bbParameters C (particleName pid) ''Use default tiny'') (Finite 1.5) \<longrightarrow>
      processParticle L C pid tracks s =
        s\<lparr>tablePID := (tablePID s)
            (pid := tablePID s pid @ map (\<lambda>trk. tpcNSigmaStore trk pid) tracks)\<rparr>
      \<and> processParticle L' C pid tracks s = processParticle L C pid tracks s)
   \<and> (fge (bbParameters C (particleName pid) ''Use default full'') (Finite 1.5) \<longrightarrow>
      processFullParticle L C pid tracks s =
        s\<lparr>tablePIDFull := (tablePIDFull s)
            (pid := tablePIDFull s pid
                    @ map (\<lambda>trk. (tpcExpSigma trk pid, tpcNSigma trk pid)) tracks)\<rparr>
      \<and> processFullParticle L' C pid tracks s = processFullParticle L C pid tracks s)"
  by (simp add: processParticle_def processFullParticle_def)

text \<open>Two tracks of Kaon; a stored NaN and a stored infinity pass through as they are.\<close>

theorem stored_values_pass_through_witness:
  "fge (Finite 2) (Finite 1.5)
   \<and> tablePID (processParticle stubLibrary (config1 Kaon (\<lambda>x y. Finite 2) '''') Kaon
                  [track0, track0\<lparr>tpcNSigmaStore := (\<lambda>pid. - 3), tpcExpSigma := (\<lambda>pid. PInf)\<rparr>]
                  lfTpcPid0) Kaon
       = [7, - 3]
   \<and> tablePIDFull (processFullParticle stubLibrary (config1 Kaon (\<lambda>x y. Finite 2) '''') Kaon
                  [track0, track0\<lparr>tpcNSigmaStore := (\<lambda>pid. - 3), tpcExpSigma := (\<lambda>pid. PInf)\<rparr>]
                  lfTpcPid0) Kaon
       = [(Finite 3, NaN), (PInf, NaN)]"
  using stored_values_pass_through
    [of "config1 Kaon (\<lambda>x y. Finite 2) ''''" Kaon stubLibrary
        "[track0, track0\<lparr>tpcNSigmaStore := (\<lambda>pid. - 3), tpcExpSigma := (\<lambda>pid. PInf)\<rparr>]"
        lfTpcPid0 stubLibrary]
  by (simp add: config1_def lfTpcPid0_def track0_def)

text \<open>
  C9. When both modes of a species are disabled and the workflow requires its compact or
  its full table, the block of the species ends in \<^verbatim>\<open>LOG(fatal)\<close>; \<^verbatim>\<open>init\<close> does not
  return, and no batch is processed and no table is filled.
\<close>

theorem requested_table_without_enabled_mode_is_fatal:
  fixes s :: "'b lfTpcPid" and L :: "'b library"
  assumes "\<not> doprocess C pid" and "\<not> doprocessFull C pid"
    and "isTableRequiredInWorkflow C (''pidTPCLf'' @ particleName pid)
         \<or> isTableRequiredInWorkflow C (''pidTPCLfFull'' @ particleName pid)"
  shows "initSpecies C X pid s
           = Inl (Fatal (''Requested '' @ speciesName pid @ '' table but not enabled in configuration''))
       \<and> (\<exists>a. init C X s = Inl a)
       \<and> (\<exists>a. runTask L C X batches = Inl a)"
proof -
  have block: "initSpecies C X pid s0
         = Inl (Fatal (''Requested '' @ speciesName pid @ '' table but not enabled in configuration''))"
    for s0 :: "'b lfTpcPid"
    by (rule initSpecies_fatal[OF assms])
  have ini: "\<exists>a. init C X s0 = Inl a" for s0 :: "'b lfTpcPid"
    unfolding init_def
    by (rule initFrom_abort[OF _ allSpecies_all, of C X pid]) (simp add: block)
  from ini[of lfTpcPid0] have "\<exists>a. runTask L C X batches = Inl a"
    by (auto dest: runTask_abort)
  with block ini show ?thesis by blast
qed

text \<open>The compact table of Kaon required with nothing enabled.\<close>

theorem requested_table_without_enabled_mode_is_fatal_witness:
  "init (configRequested ''pidTPCLfKa'')
        (rootWorld False (storeOf ''Analysis/PID/TPC/hpar'' hparGood) noFiles)
        (lfTpcPid0 :: int lfTpcPid)
     = Inl (Fatal ''Requested Kaon table but not enabled in configuration'')
   \<and> runTask stubLibrary (configRequested ''pidTPCLfKa'')
        (rootWorld False (storeOf ''Analysis/PID/TPC/hpar'' hparGood) noFiles) [[track0]]
     = Inl (Fatal ''Requested Kaon table but not enabled in configuration'')"
  using requested_table_without_enabled_mode_is_fatal
    [of "configRequested ''pidTPCLfKa''" Kaon
        "rootWorld False (storeOf ''Analysis/PID/TPC/hpar'' hparGood) noFiles"
        "lfTpcPid0 :: int lfTpcPid" stubLibrary "[[track0]]"]
  by (simp add: runTask_def eval_defs)

text \<open>
  C10. The compiled-in parameter sets of any two species are equal; when neither has an
  override from the table or a locator they are still equal, and the defaults, after
  \<^verbatim>\<open>init\<close>. Every entry of \<open>defaultParameters\<close>, and so of the default table, is zero.
\<close>

theorem defaults_identical_for_all_species:
  assumes "flt (bbParameters C (particleName s1) ''Set parameters'') (Finite 1.5)"
    and "length (fileParamBb C s1) \<le> 1"
    and "flt (bbParameters C (particleName s2) ''Set parameters'') (Finite 1.5)"
    and "length (fileParamBb C s2) \<le> 1"
  shows "bbs (lfTpcPid0 :: 'b lfTpcPid) s1 = bbs (lfTpcPid0 :: 'b lfTpcPid) s2
       \<and> (case init C X (lfTpcPid0 :: 'b lfTpcPid) of
            Inl a \<Rightarrow> True
          | Inr s \<Rightarrow> bbs s s1 = bbs s s2 \<and> bbs s s2 = default_bbParams)
       \<and> default_bbParameters x y = Finite 0
       \<and> defaultParameters = replicate 9 (replicate 11 (Finite 0))"
proof -
  have "bbs s s1 = default_bbParams \<and> bbs s s2 = default_bbParams"
    if "init C X (lfTpcPid0 :: 'b lfTpcPid) = Inr s" for s
    using initFrom_unchanged[OF assms(1,2), of X allSpecies lfTpcPid0 s]
      initFrom_unchanged[OF assms(3,4), of X allSpecies lfTpcPid0 s] that
    by (simp add: init_def lfTpcPid0_def)
  then show ?thesis
    by (auto simp: default_bbParameters_zero defaultParameters_def nSpecies_def nParameters_def
        lfTpcPid0_def split: sum.splits)
qed

text \<open>Electron and Alpha in the default configuration.\<close>

theorem defaults_identical_for_all_species_witness:
  "flt (default_bbParameters ''El'' ''Set parameters'') (Finite 1.5)
   \<and> flt (default_bbParameters ''Al'' ''Set parameters'') (Finite 1.5)
   \<and> (case init configDefault
              (rootWorld False (storeOf ''Analysis/PID/TPC/hpar'' hparGood) noFiles)
              (lfTpcPid0 :: int lfTpcPid) of
        Inl a \<Rightarrow> False
      | Inr s \<Rightarrow> bbs s Electron = bbs s Alpha \<and> bbs s Alpha = default_bbParams)"
  using defaults_identical_for_all_species
    [of configDefault Electron Alpha
        "rootWorld False (storeOf ''Analysis/PID/TPC/hpar'' hparGood) noFiles",
     where ?'b = int]
  by (simp add: configDefault_def eval_defs default_bbParameters_zero)

end
